theory Spec2Isabelle
  imports Main
begin

section \<open>JSON values and the Python operations the gateway applies to them\<close>

text \<open>
  Requests, parameters and responses are whatever \<^verbatim>\<open>json.loads\<close> produces. Numbers are
  integers here (floats are left out); a dictionary is an association list in insertion
  order, with distinct keys.
\<close>

datatype json =
    JNull
  | JBool bool
  | JInt int
  | JStr string
  | JList "json list"
  | JObj "(string \<times> json) list"

text \<open>
  The exceptions the gateway code can meet. \<open>HTTPException status detail\<close> is FastAPI's;
  \<open>AttributeError\<close> is \<^verbatim>\<open>x.get(...)\<close> or \<^verbatim>\<open>x.startswith(...)\<close> on a value that lacks
  the method, \<open>TypeError\<close> is indexing, iterating or item assignment on a value that does not
  support it, \<open>JSONDecodeError\<close> is a request body that is no JSON, \<open>DatabaseError\<close> is
  whatever a query or a commit of the database session raises.
\<close>

datatype exn =
    HTTPException int string
  | AttributeError
  | TypeError
  | JSONDecodeError
  | DatabaseError

text \<open>Python truth value: \<^verbatim>\<open>if x\<close>, \<^verbatim>\<open>if not x\<close>.\<close>

fun truthy :: "json \<Rightarrow> bool" where
  "truthy JNull = False"
| "truthy (JBool b) = b"
| "truthy (JInt i) = (i \<noteq> 0)"
| "truthy (JStr s) = (s \<noteq> [])"
| "truthy (JList xs) = (xs \<noteq> [])"
| "truthy (JObj kvs) = (kvs \<noteq> [])"

text \<open>\<^verbatim>\<open>d.get(k, default)\<close> and \<^verbatim>\<open>d.get(k)\<close> on a dictionary.\<close>

definition dict_get_default :: "(string \<times> json) list \<Rightarrow> string \<Rightarrow> json \<Rightarrow> json" where
  "dict_get_default kvs k d = (case map_of kvs k of None \<Rightarrow> d | Some v \<Rightarrow> v)"

definition dict_get :: "(string \<times> json) list \<Rightarrow> string \<Rightarrow> json" where
  "dict_get kvs k = dict_get_default kvs k JNull"

text \<open>\<^verbatim>\<open>d[k] = v\<close>: an existing key keeps its place, a new key goes to the end.\<close>

fun dict_set :: "(string \<times> json) list \<Rightarrow> string \<Rightarrow> json \<Rightarrow> (string \<times> json) list" where
  "dict_set [] k v = [(k, v)]"
| "dict_set ((k', v') # kvs) k v =
     (if k' = k then (k, v) # kvs else (k', v') # dict_set kvs k v)"

text \<open>\<^verbatim>\<open>x.get(k, default)\<close> on any value: only a dictionary has \<^verbatim>\<open>get\<close>.\<close>

fun py_get_default :: "json \<Rightarrow> string \<Rightarrow> json \<Rightarrow> exn + json" where
  "py_get_default (JObj kvs) k d = Inr (dict_get_default kvs k d)"
| "py_get_default _ k d = Inl AttributeError"

definition py_get :: "json \<Rightarrow> string \<Rightarrow> exn + json" where
  "py_get x k = py_get_default x k JNull"

text \<open>\<^verbatim>\<open>x.get(k) if x else None\<close>, as both routing strategies read the parameters.\<close>

definition get_if_truthy :: "json \<Rightarrow> string \<Rightarrow> exn + json" where
  "get_if_truthy x k = (if truthy x then py_get x k else Inr JNull)"

text \<open>\<^verbatim>\<open>s.startswith(p)\<close> and substring containment \<^verbatim>\<open>p in s\<close> on strings.\<close>

fun startswith :: "string \<Rightarrow> string \<Rightarrow> bool" where
  "startswith s [] = True"
| "startswith [] (p # ps) = False"
| "startswith (c # cs) (p # ps) = (c = p \<and> startswith cs ps)"

fun contains_str :: "string \<Rightarrow> string \<Rightarrow> bool" where
  "contains_str [] p = (p = [])"
| "contains_str (c # cs) p = (startswith (c # cs) p \<or> contains_str cs p)"

text \<open>
  \<^verbatim>\<open>k in x\<close> for a string \<open>k\<close>: key membership in a dictionary, element membership in a
  list, substring in a string, and a \<open>TypeError\<close> on \<^verbatim>\<open>None\<close>, a number or a boolean.
\<close>

fun py_in :: "string \<Rightarrow> json \<Rightarrow> exn + bool" where
  "py_in k (JObj kvs) = Inr (map_of kvs k \<noteq> None)"
| "py_in k (JList xs) = Inr (JStr k \<in> set xs)"
| "py_in k (JStr s) = Inr (contains_str s k)"
| "py_in k _ = Inl TypeError"

text \<open>\<^verbatim>\<open>x[k]\<close> for a string \<open>k\<close> known to be present when \<open>x\<close> is a dictionary.\<close>

fun py_index :: "json \<Rightarrow> string \<Rightarrow> exn + json" where
  "py_index (JObj kvs) k = Inr (dict_get kvs k)"
| "py_index _ k = Inl TypeError"

text \<open>\<^verbatim>\<open>for t in x\<close>: the elements of a list, the keys of a dictionary, the characters of
  a string; anything else is not iterable.\<close>

fun py_iter :: "json \<Rightarrow> exn + json list" where
  "py_iter (JList xs) = Inr xs"
| "py_iter (JObj kvs) = Inr (map (\<lambda>kv. JStr (fst kv)) kvs)"
| "py_iter (JStr s) = Inr (map (\<lambda>c. JStr [c]) s)"
| "py_iter _ = Inl TypeError"

text \<open>
  Python's \<^verbatim>\<open>==\<close> on JSON values: \<^verbatim>\<open>True == 1\<close> and \<^verbatim>\<open>False == 0\<close> hold, lists compare
  element by element, dictionaries compare as key-value sets.
\<close>

fun py_eq :: "json \<Rightarrow> json \<Rightarrow> bool" where
  "py_eq JNull y = (y = JNull)"
| "py_eq (JBool a) y =
     (case y of JBool b \<Rightarrow> a = b | JInt j \<Rightarrow> (if a then 1 else 0) = j | _ \<Rightarrow> False)"
| "py_eq (JInt i) y =
     (case y of JInt j \<Rightarrow> i = j | JBool b \<Rightarrow> i = (if b then 1 else 0) | _ \<Rightarrow> False)"
| "py_eq (JStr s) y = (y = JStr s)"
| "py_eq (JList xs) y = (case y of JList ys \<Rightarrow> list_all2 py_eq xs ys | _ \<Rightarrow> False)"
| "py_eq (JObj a) y =
     (case y of
        JObj b \<Rightarrow>
          length a = length b \<and>
          list_all (\<lambda>kv. case map_of b (fst kv) of None \<Rightarrow> False | Some w \<Rightarrow> py_eq (snd kv) w) a
      | _ \<Rightarrow> False)"


section \<open>Data model (models.py)\<close>

datatype ServerStatus = ACTIVE | INACTIVE | ERROR | STARTING | STOPPING

text \<open>The column is a free string; \<open>OTHER\<close> stands for any value outside the enum.\<close>

datatype TransportType = STDIO | HTTP | SSE | STREAMABLE_HTTP | OTHER string

text \<open>
  A row of the \<^verbatim>\<open>mcp_servers\<close> table, with the columns the gateway reads or writes. The
  primary key \<^verbatim>\<open>id\<close> is \<open>id_server\<close>; times are seconds on the UTC clock.
\<close>

record MCPServer =
  id_server :: int
  name :: string
  command :: string
  args :: "string list"
  transport_type :: TransportType
  status :: ServerStatus
  last_health_check :: "int option"
  health_check_interval :: int
  auto_restart :: bool
  max_restarts :: int
  restart_count :: int

text \<open>An in-memory session of \<^verbatim>\<open>MCPGateway.sessions\<close>.\<close>

record session =
  client_type :: string
  client_info :: json
  connected_servers :: "int list"
  created_at :: int

section \<open>The outside world\<close>

text \<open>
  What the handshake of \<^verbatim>\<open>_test_stdio_connection\<close> meets after it has written the ping:
  writing or draining raises, no line arrives within five seconds, the line is no JSON,
  or the line parses to a value.
\<close>

datatype stdio_reply = PipeError | NoReply | BadLine | Reply json

text \<open>
  How closing a subprocess goes in \<^verbatim>\<open>stop_server\<close>: it exits within the grace period
  after \<^verbatim>\<open>terminate\<close>, it has to be killed after the timeout, or one of the calls raises
  (\<^verbatim>\<open>terminate\<close> on a process that is already gone raises \<^verbatim>\<open>ProcessLookupError\<close>).
\<close>

datatype close_outcome = Exited | ForceKilled | CloseRaises

text \<open>
  Everything the operating system, the providers and the clock decide. Subprocesses and
  HTTP clients are named by the order of their creation. A transport answers a request
  envelope with a parsed response, or raises; \<open>Inl msg\<close> carries \<^verbatim>\<open>str(e)\<close> of what was
  raised (timeout, broken pipe, a line that is no JSON, a non-2xx status). The database
  operations are counted, and \<open>db_ok n\<close> tells whether the one with number \<open>n\<close> goes through
  or raises.
\<close>

record env =
  utcnow :: int
  uuid4 :: "nat \<Rightarrow> string"
  spawn_ok :: "MCPServer \<Rightarrow> nat \<Rightarrow> bool"
  ping_reply :: "nat \<Rightarrow> stdio_reply"
  kill_ok :: "nat \<Rightarrow> bool"
  terminate :: "nat \<Rightarrow> close_outcome"
  client_ok :: "MCPServer \<Rightarrow> bool"
  http_get :: "nat \<Rightarrow> string \<Rightarrow> int option"
  aclose_ok :: "nat \<Rightarrow> bool"
  pipe_send :: "nat \<Rightarrow> json \<Rightarrow> string + json"
  http_post :: "nat \<Rightarrow> string \<Rightarrow> json \<Rightarrow> string + json"
  db_ok :: "nat \<Rightarrow> bool"
  str_exn :: "exn \<Rightarrow> string"
  str_json :: "json \<Rightarrow> string"

section \<open>State of the manager, the gateway and the database\<close>

text \<open>
  An entry of \<^verbatim>\<open>active_servers\<close>: the dictionary with \<^verbatim>\<open>"type": "stdio"\<close> holds the
  server, the process and the start time, the one with \<^verbatim>\<open>"type": "http"\<close> holds the
  server, the client and the start time (its \<^verbatim>\<open>base_url\<close> is a function of the server's
  host and port and is left out). No other \<^verbatim>\<open>"type"\<close> is ever stored. The server of
  an entry is the row as it was handed to the start; no function here reads its status.
\<close>

datatype server_info =
    StdioInfo MCPServer nat int
  | HttpInfo MCPServer nat int

text \<open>
  The three registries of \<^verbatim>\<open>MCPServerManager\<close>, the sessions of \<^verbatim>\<open>MCPGateway\<close>, the
  \<^verbatim>\<open>mcp_servers\<close> table, and the bookkeeping of the world: how many subprocesses and
  HTTP clients were created so far, which of them were terminated, killed or closed,
  how many request or session identifiers were drawn, and how many database operations
  were attempted.
\<close>

record system =
  active_servers :: "int \<rightharpoonup> server_info"
  server_processes :: "int \<rightharpoonup> nat"
  http_clients :: "int \<rightharpoonup> nat"
  sessions :: "string \<rightharpoonup> session"
  db :: "int \<rightharpoonup> MCPServer"
  spawned :: nat
  ended :: "nat set"
  opened :: nat
  closed :: "nat set"
  issued :: nat
  db_ops :: nat

section \<open>MCPServerManager (gateway.py)\<close>

text \<open>
  \<^verbatim>\<open>_update_server_status\<close>: a query and, when the row exists, a write of status and
  timestamp with a commit. The operation may raise; then \<open>Some\<close> exception is returned
  and the table is as it was.
\<close>

definition update_server_status ::
  "env \<Rightarrow> system \<Rightarrow> int \<Rightarrow> ServerStatus \<Rightarrow> exn option \<times> system" where
  "update_server_status e s server_id st =
     (let s1 = s\<lparr>db_ops := Suc (db_ops s)\<rparr>
      in if \<not> db_ok e (db_ops s) then (Some DatabaseError, s1)
         else
           (case db s server_id of
              None \<Rightarrow> (None, s1)
            | Some server \<Rightarrow>
                (None,
                 s1\<lparr>db := (db s)(server_id \<mapsto>
                        server\<lparr>status := st, last_health_check := Some (utcnow e)\<rparr>)\<rparr>)))"

text \<open>
  \<^verbatim>\<open>_test_stdio_connection\<close>: the answer to the ping passes when \<^verbatim>\<open>"jsonrpc" in response\<close>
  holds; a timeout gives \<open>False\<close>, and so does every exception (a write that fails, a line
  that is no JSON, a response on which \<^verbatim>\<open>in\<close> raises).
\<close>

definition test_stdio_connection :: "env \<Rightarrow> nat \<Rightarrow> bool" where
  "test_stdio_connection e process =
     (case ping_reply e process of
        PipeError \<Rightarrow> False
      | NoReply \<Rightarrow> False
      | BadLine \<Rightarrow> False
      | Reply response \<Rightarrow>
          (case py_in ''jsonrpc'' response of Inl ex \<Rightarrow> False | Inr b \<Rightarrow> b))"

text \<open>
  \<^verbatim>\<open>_start_stdio_server\<close>. Building the command or spawning may raise: the handler
  returns \<open>False\<close>. Otherwise the process is stored in \<^verbatim>\<open>server_processes\<close> before the
  connection test. When the test fails the process is killed and awaited; should
  \<^verbatim>\<open>kill\<close> raise (the process is gone already), the handler returns \<open>False\<close> as well.
  When the test passes the entry is stored and the status written; should that write
  raise, the handler returns \<open>False\<close> with the entry in place.
\<close>

definition start_stdio_server :: "env \<Rightarrow> system \<Rightarrow> MCPServer \<Rightarrow> bool \<times> system" where
  "start_stdio_server e s server =
     (if \<not> spawn_ok e server (spawned s) then (False, s)
      else
        let process = spawned s;
            s1 = s\<lparr>spawned := Suc process,
                   server_processes := (server_processes s)(id_server server \<mapsto> process)\<rparr>
        in if test_stdio_connection e process then
             let s2 = s1\<lparr>active_servers := (active_servers s1)(id_server server \<mapsto>
                           StdioInfo server process (utcnow e))\<rparr>
             in (case update_server_status e s2 (id_server server) ACTIVE of
                   (None, s3) \<Rightarrow> (True, s3)
                 | (Some ex, s3) \<Rightarrow> (False, s3))
           else if kill_ok e process then (False, s1\<lparr>ended := insert process (ended s1)\<rparr>)
           else (False, s1))"

text \<open>\<^verbatim>\<open>_test_http_connection\<close>: \<open>None\<close> from \<open>http_get\<close> is a request that raised.\<close>

definition test_http_connection :: "env \<Rightarrow> nat \<Rightarrow> MCPServer \<Rightarrow> bool" where
  "test_http_connection e client server =
     (case http_get e client
             (if transport_type server = SSE then ''/sse''
              else if transport_type server = STREAMABLE_HTTP then ''/''
              else ''/health'') of
        None \<Rightarrow> False
      | Some status_code \<Rightarrow> status_code \<in> {200, 201, 202})"

text \<open>
  \<^verbatim>\<open>_start_http_server\<close>: the server is taken to be running; only a client is made.
  Building the address or the client may raise; closing the client after a failed probe
  may raise too; the handler returns \<open>False\<close> for both, and also when the status write
  after a passed probe raises, with the entries in place.
\<close>

definition start_http_server :: "env \<Rightarrow> system \<Rightarrow> MCPServer \<Rightarrow> bool \<times> system" where
  "start_http_server e s server =
     (if \<not> client_ok e server then (False, s)
      else
        let client = opened s;
            s1 = s\<lparr>opened := Suc client\<rparr>
        in if test_http_connection e client server then
             let s2 = s1\<lparr>http_clients := (http_clients s1)(id_server server \<mapsto> client),
                         active_servers := (active_servers s1)(id_server server \<mapsto>
                           HttpInfo server client (utcnow e))\<rparr>
             in (case update_server_status e s2 (id_server server) ACTIVE of
                   (None, s3) \<Rightarrow> (True, s3)
                 | (Some ex, s3) \<Rightarrow> (False, s3))
           else if aclose_ok e client then (False, s1\<lparr>closed := insert client (closed s1)\<rparr>)
           else (False, s1))"

text \<open>
  \<^verbatim>\<open>start_server\<close>. Both helpers catch every exception themselves, so the handler of
  \<^verbatim>\<open>start_server\<close>, the only place that would write \<open>ERROR\<close>, is never entered.
\<close>

definition start_server :: "env \<Rightarrow> system \<Rightarrow> MCPServer \<Rightarrow> bool \<times> system" where
  "start_server e s server =
     (case transport_type server of
        STDIO \<Rightarrow> start_stdio_server e s server
      | HTTP \<Rightarrow> start_http_server e s server
      | SSE \<Rightarrow> start_http_server e s server
      | STREAMABLE_HTTP \<Rightarrow> start_http_server e s server
      | OTHER t \<Rightarrow> (False, s))"

text \<open>
  The clean-up at the end of \<^verbatim>\<open>stop_server\<close>: three \<^verbatim>\<open>pop\<close>s, then the status. The
  write sits in the \<^verbatim>\<open>try\<close>: when it raises, the handler returns \<open>False\<close> and the
  entries are gone already.
\<close>

definition clean_up :: "env \<Rightarrow> system \<Rightarrow> int \<Rightarrow> bool \<times> system" where
  "clean_up e s server_id =
     (case update_server_status e
             (s\<lparr>active_servers := (active_servers s)(server_id := None),
                server_processes := (server_processes s)(server_id := None),
                http_clients := (http_clients s)(server_id := None)\<rparr>)
             server_id INACTIVE of
        (None, s') \<Rightarrow> (True, s')
      | (Some ex, s') \<Rightarrow> (False, s'))"

text \<open>
  \<^verbatim>\<open>stop_server\<close>. An identifier without an entry returns \<open>True\<close> at once. A timeout of the
  wait is handled by killing; any other exception of the close leaves the \<^verbatim>\<open>try\<close> before
  the clean-up and the handler returns \<open>False\<close>.
\<close>

definition stop_server :: "env \<Rightarrow> system \<Rightarrow> int \<Rightarrow> bool \<times> system" where
  "stop_server e s server_id =
     (case active_servers s server_id of
        None \<Rightarrow> (True, s)
      | Some (StdioInfo server process t) \<Rightarrow>
          (case terminate e process of
             CloseRaises \<Rightarrow> (False, s)
           | Exited \<Rightarrow> clean_up e (s\<lparr>ended := insert process (ended s)\<rparr>) server_id
           | ForceKilled \<Rightarrow> clean_up e (s\<lparr>ended := insert process (ended s)\<rparr>) server_id)
      | Some (HttpInfo server client t) \<Rightarrow>
          (if aclose_ok e client
           then clean_up e (s\<lparr>closed := insert client (closed s)\<rparr>) server_id
           else (False, s)))"

text \<open>
  \<^verbatim>\<open>_proxy_stdio_request\<close> on the process of the entry: one line out, one line in,
  parsed. Nothing compares the identifier of the response with the one sent.
\<close>

definition proxy_stdio_request :: "env \<Rightarrow> nat \<Rightarrow> json \<Rightarrow> string + json" where
  "proxy_stdio_request e process request_data = pipe_send e process request_data"

text \<open>\<^verbatim>\<open>_proxy_http_request\<close>: a POST to the path of the transport kind.\<close>

definition proxy_http_request :: "env \<Rightarrow> MCPServer \<Rightarrow> nat \<Rightarrow> json \<Rightarrow> string + json" where
  "proxy_http_request e server client request_data =
     http_post e client
       (if transport_type server = SSE then ''/sse''
        else if transport_type server = STREAMABLE_HTTP then ''/''
        else ''/mcp'')
       request_data"

text \<open>
  \<^verbatim>\<open>proxy_request\<close>: 404 without an entry; otherwise a fresh identifier is drawn, the
  envelope is built and sent, and whatever the transport raises is wrapped in a 500.
\<close>

definition proxy_request ::
  "env \<Rightarrow> system \<Rightarrow> int \<Rightarrow> string \<Rightarrow> json \<Rightarrow> (exn + json) \<times> system" where
  "proxy_request e s server_id method params =
     (case active_servers s server_id of
        None \<Rightarrow> (Inl (HTTPException 404 ''Server not found or inactive''), s)
      | Some server_info \<Rightarrow>
          let request_id = uuid4 e (issued s);
              s' = s\<lparr>issued := Suc (issued s)\<rparr>;
              request_data = JObj [(''jsonrpc'', JStr ''2.0''), (''id'', JStr request_id),
                                   (''method'', JStr method), (''params'', params)]
          in (case (case server_info of
                      StdioInfo server process t \<Rightarrow> proxy_stdio_request e process request_data
                    | HttpInfo server client t \<Rightarrow>
                        proxy_http_request e server client request_data) of
                Inl msg \<Rightarrow> (Inl (HTTPException 500 (''Server request failed: '' @ msg)), s')
              | Inr response \<Rightarrow> (Inr response, s')))"

text \<open>
  The handler of \<^verbatim>\<open>health_check\<close>: it writes \<open>ERROR\<close> and returns \<open>False\<close>. The write is
  outside every \<^verbatim>\<open>try\<close>: when it raises, \<^verbatim>\<open>health_check\<close> raises.
\<close>

definition health_check_failed :: "env \<Rightarrow> system \<Rightarrow> int \<Rightarrow> (exn + bool) \<times> system" where
  "health_check_failed e s server_id =
     (case update_server_status e s server_id ERROR of
        (None, s') \<Rightarrow> (Inr False, s')
      | (Some ex, s') \<Rightarrow> (Inl ex, s'))"

text \<open>
  \<^verbatim>\<open>health_check\<close>: \<open>False\<close> without an entry; otherwise a ping and, when it returned,
  the write of \<open>ACTIVE\<close> and \<open>True\<close>. When the ping or that write raises, the handler runs.
\<close>

definition health_check :: "env \<Rightarrow> system \<Rightarrow> int \<Rightarrow> (exn + bool) \<times> system" where
  "health_check e s server_id =
     (if active_servers s server_id = None then (Inr False, s)
      else
        (case proxy_request e s server_id ''ping'' JNull of
           (Inr response, s1) \<Rightarrow>
             (case update_server_status e s1 server_id ACTIVE of
                (None, s2) \<Rightarrow> (Inr True, s2)
              | (Some ex, s2) \<Rightarrow> health_check_failed e s2 server_id)
         | (Inl ex, s1) \<Rightarrow> health_check_failed e s1 server_id))"


section \<open>MCPGateway (gateway.py)\<close>

text \<open>
  \<^verbatim>\<open>create_session\<close>: a fresh identifier, the durable copy of the session (a database
  operation that may raise, and then no session is made), and the in-memory session
  without servers, with \<^verbatim>\<open>client_info or {}\<close> for the metadata. The gateway never reads
  the durable copy, so the \<^verbatim>\<open>sessions\<close> table itself is left out.
\<close>

definition create_session ::
  "env \<Rightarrow> system \<Rightarrow> string \<Rightarrow> json \<Rightarrow> (exn + string) \<times> system" where
  "create_session e s ctype cinfo =
     (let session_id = uuid4 e (issued s);
          s1 = s\<lparr>issued := Suc (issued s), db_ops := Suc (db_ops s)\<rparr>
      in if \<not> db_ok e (db_ops s) then (Inl DatabaseError, s1)
         else
           (Inr session_id,
            s1\<lparr>sessions := (sessions s)(session_id \<mapsto>
                 \<lparr>client_type = ctype,
                  client_info = (if truthy cinfo then cinfo else JObj []),
                  connected_servers = [], created_at = utcnow e\<rparr>)\<rparr>))"

text \<open>
  Tagging in \<^verbatim>\<open>_aggregate_from_servers\<close>: \<^verbatim>\<open>item["_server_id"] = server_id\<close> works on a
  dictionary and raises on anything else.
\<close>

fun tag_item :: "int \<Rightarrow> json \<Rightarrow> exn + json" where
  "tag_item server_id (JObj kvs) = Inr (JObj (dict_set kvs ''_server_id'' (JInt server_id)))"
| "tag_item server_id _ = Inl TypeError"

text \<open>The inner \<^verbatim>\<open>for item in server_result\<close>: it stops at the first item that raises.\<close>

fun tag_items :: "int \<Rightarrow> json list \<Rightarrow> exn + json list" where
  "tag_items server_id [] = Inr []"
| "tag_items server_id (item # rest) =
     (case tag_item server_id item of
        Inl ex \<Rightarrow> Inl ex
      | Inr tagged \<Rightarrow>
          (case tag_items server_id rest of
             Inl ex \<Rightarrow> Inl ex
           | Inr others \<Rightarrow> Inr (tagged # others)))"

text \<open>
  What one response adds to \<^verbatim>\<open>results\<close>: the tagged items of a list result, the tagged
  result itself when it is a dictionary, nothing for another result or when there is no
  \<^verbatim>\<open>"result"\<close>; \<open>Inl\<close> when the body raises, and then nothing has been added yet.
\<close>

definition collect :: "int \<Rightarrow> json \<Rightarrow> exn + json list" where
  "collect server_id response =
     (case py_in ''result'' response of
        Inl ex \<Rightarrow> Inl ex
      | Inr False \<Rightarrow> Inr []
      | Inr True \<Rightarrow>
          (case py_index response ''result'' of
             Inl ex \<Rightarrow> Inl ex
           | Inr (JList server_result) \<Rightarrow> tag_items server_id server_result
           | Inr (JObj server_result) \<Rightarrow>
               (case tag_item server_id (JObj server_result) of
                  Inl ex \<Rightarrow> Inl ex
                | Inr tagged \<Rightarrow> Inr [tagged])
           | Inr other \<Rightarrow> Inr []))"

text \<open>
  The body of the \<^verbatim>\<open>try\<close> for one server: the request, then the collecting. \<open>Inl\<close> is the
  exception that the handler logs before it goes on with the next server.
\<close>

definition attempt ::
  "env \<Rightarrow> system \<Rightarrow> int \<Rightarrow> string \<Rightarrow> json \<Rightarrow> (exn + json list) \<times> system" where
  "attempt e s server_id method params =
     (case proxy_request e s server_id method params of
        (Inl ex, s') \<Rightarrow> (Inl ex, s')
      | (Inr response, s') \<Rightarrow> (collect server_id response, s'))"

text \<open>The loop of \<^verbatim>\<open>_aggregate_from_servers\<close> over the connected servers.\<close>

fun aggregate_loop ::
  "env \<Rightarrow> system \<Rightarrow> string \<Rightarrow> json \<Rightarrow> int list \<Rightarrow> json list \<Rightarrow> json list \<times> system" where
  "aggregate_loop e s method params [] results = (results, s)"
| "aggregate_loop e s method params (server_id # rest) results =
     (case attempt e s server_id method params of
        (Inl ex, s') \<Rightarrow> aggregate_loop e s' method params rest results
      | (Inr items, s') \<Rightarrow> aggregate_loop e s' method params rest (results @ items))"

text \<open>
  \<^verbatim>\<open>_aggregate_from_servers\<close>: after the loop the envelope is built; its identifier is
  \<^verbatim>\<open>params.get("id") if params else None\<close>, which raises on parameters that are true and
  no dictionary.
\<close>

definition aggregate_from_servers ::
  "env \<Rightarrow> system \<Rightarrow> session \<Rightarrow> string \<Rightarrow> json \<Rightarrow> (exn + json) \<times> system" where
  "aggregate_from_servers e s sess method params =
     (case aggregate_loop e s method params (connected_servers sess) [] of
        (results, s') \<Rightarrow>
          (case get_if_truthy params ''id'' of
             Inl ex \<Rightarrow> (Inl ex, s')
           | Inr ident \<Rightarrow>
               (Inr (JObj [(''jsonrpc'', JStr ''2.0''), (''id'', ident),
                           (''result'', JList results)]), s')))"

text \<open>
  The inner loop of \<^verbatim>\<open>_route_tool_call\<close>: does a tool of the list carry the name?
  \<^verbatim>\<open>tool.get\<close> raises on a tool that is no dictionary.
\<close>

fun scan_tools :: "json list \<Rightarrow> json \<Rightarrow> exn + bool" where
  "scan_tools [] tool_name = Inr False"
| "scan_tools (tool # rest) tool_name =
     (case py_get tool ''name'' of
        Inl ex \<Rightarrow> Inl ex
      | Inr n \<Rightarrow> if py_eq n tool_name then Inr True else scan_tools rest tool_name)"

text \<open>\<^verbatim>\<open>tools_response.get("result", [])\<close> and the scan of what it holds.\<close>

definition find_tool :: "json \<Rightarrow> json \<Rightarrow> exn + bool" where
  "find_tool tools_response tool_name =
     (case py_get_default tools_response ''result'' (JList []) of
        Inl ex \<Rightarrow> Inl ex
      | Inr tools \<Rightarrow>
          (case py_iter tools of
             Inl ex \<Rightarrow> Inl ex
           | Inr ts \<Rightarrow> scan_tools ts tool_name))"

text \<open>The detail of the 404 of \<^verbatim>\<open>_route_tool_call\<close>, an f-string around the name.\<close>

definition tool_not_found :: "env \<Rightarrow> json \<Rightarrow> exn" where
  "tool_not_found e tool_name =
     HTTPException 404
       (''Tool '' @ [CHR 0x27] @ (case tool_name of JStr n \<Rightarrow> n | other \<Rightarrow> str_json e other)
          @ [CHR 0x27] @ '' not found'')"

text \<open>
  The outer loop of \<^verbatim>\<open>_route_tool_call\<close>. The forwarding \<^verbatim>\<open>return await ...\<close> sits inside
  the same \<^verbatim>\<open>try\<close> as the listing, so when the forwarded call raises, the handler logs
  and the loop goes on with the next server.
\<close>

fun route_tool_loop ::
  "env \<Rightarrow> system \<Rightarrow> string \<Rightarrow> json \<Rightarrow> json \<Rightarrow> int list \<Rightarrow> (exn + json) \<times> system" where
  "route_tool_loop e s method params tool_name [] = (Inl (tool_not_found e tool_name), s)"
| "route_tool_loop e s method params tool_name (server_id # rest) =
     (case proxy_request e s server_id ''tools/list'' JNull of
        (Inl ex, s1) \<Rightarrow> route_tool_loop e s1 method params tool_name rest
      | (Inr tools_response, s1) \<Rightarrow>
          (case find_tool tools_response tool_name of
             Inl ex \<Rightarrow> route_tool_loop e s1 method params tool_name rest
           | Inr False \<Rightarrow> route_tool_loop e s1 method params tool_name rest
           | Inr True \<Rightarrow>
               (case proxy_request e s1 server_id method params of
                  (Inl ex, s2) \<Rightarrow> route_tool_loop e s2 method params tool_name rest
                | (Inr response, s2) \<Rightarrow> (Inr response, s2))))"

text \<open>\<^verbatim>\<open>_route_tool_call\<close>: the name is required, then the servers are searched.\<close>

definition route_tool_call ::
  "env \<Rightarrow> system \<Rightarrow> session \<Rightarrow> string \<Rightarrow> json \<Rightarrow> (exn + json) \<times> system" where
  "route_tool_call e s sess method params =
     (case get_if_truthy params ''name'' of
        Inl ex \<Rightarrow> (Inl ex, s)
      | Inr tool_name \<Rightarrow>
          if \<not> truthy tool_name then (Inl (HTTPException 400 ''Tool name required''), s)
          else route_tool_loop e s method params tool_name (connected_servers sess))"

text \<open>\<^verbatim>\<open>_route_to_primary_server\<close>: the first connected server, or a 400 without one.\<close>

definition route_to_primary_server ::
  "env \<Rightarrow> system \<Rightarrow> session \<Rightarrow> string \<Rightarrow> json \<Rightarrow> (exn + json) \<times> system" where
  "route_to_primary_server e s sess method params =
     (case connected_servers sess of
        [] \<Rightarrow> (Inl (HTTPException 400 ''No servers connected to session''), s)
      | primary_server_id # rest \<Rightarrow> proxy_request e s primary_server_id method params)"

text \<open>\<^verbatim>\<open>route_request\<close>: the session must exist; the method picks the strategy.\<close>

definition route_request ::
  "env \<Rightarrow> system \<Rightarrow> string \<Rightarrow> string \<Rightarrow> json \<Rightarrow> (exn + json) \<times> system" where
  "route_request e s session_id method params =
     (case sessions s session_id of
        None \<Rightarrow> (Inl (HTTPException 404 ''Session not found''), s)
      | Some sess \<Rightarrow>
          if method \<in> {''tools/list'', ''resources/list'', ''prompts/list''}
          then aggregate_from_servers e s sess method params
          else if startswith method ''tools/call''
          then route_tool_call e s sess method params
          else route_to_primary_server e s sess method params)"


section \<open>The MCP endpoint (server.py)\<close>

text \<open>
  \<^verbatim>\<open>route_request\<close> as \<^verbatim>\<open>handle_mcp_request\<close> calls it, with \<^verbatim>\<open>request_data.get("method")\<close>
  for the method: a value that is no string passes the membership test as \<open>False\<close> and
  then has no \<^verbatim>\<open>startswith\<close>.
\<close>

definition route_request_any ::
  "env \<Rightarrow> system \<Rightarrow> string \<Rightarrow> json \<Rightarrow> json \<Rightarrow> (exn + json) \<times> system" where
  "route_request_any e s session_id method params =
     (case method of
        JStr m \<Rightarrow> route_request e s session_id m params
      | other \<Rightarrow>
          (case sessions s session_id of
             None \<Rightarrow> (Inl (HTTPException 404 ''Session not found''), s)
           | Some sess \<Rightarrow> (Inl AttributeError, s)))"

text \<open>The body of the error response that \<^verbatim>\<open>handle_mcp_request\<close> builds in its handler.\<close>

definition error_response :: "json \<Rightarrow> string \<Rightarrow> json" where
  "error_response ident message =
     JObj [(''jsonrpc'', JStr ''2.0''), (''id'', ident),
           (''error'', JObj [(''code'', JInt (- 32000)), (''message'', JStr message)])]"

text \<open>
  \<^verbatim>\<open>handle_mcp_request\<close>. \<open>body\<close> is the parsed request body, \<open>None\<close> when it is no JSON;
  \<open>user_session\<close> is \<^verbatim>\<open>current_user.get("session_id")\<close>, an optional string by the
  authentication layer's types, and \<open>user_type\<close> is \<^verbatim>\<open>current_user.get("type", "api")\<close>.
  The result is the status code and the content of the \<^verbatim>\<open>JSONResponse\<close>. Only
  the method and the parameters of the request reach \<^verbatim>\<open>route_request\<close>; the request's own
  \<^verbatim>\<open>"id"\<close> is read in the exception handler alone. On a body that is no dictionary the
  handler's own \<^verbatim>\<open>request_data.get("id")\<close> raises again, and that exception leaves the
  function.
\<close>

definition handle_mcp_request ::
  "env \<Rightarrow> system \<Rightarrow> string option \<Rightarrow> string \<Rightarrow> json \<Rightarrow> json option
     \<Rightarrow> (exn + int \<times> json) \<times> system" where
  "handle_mcp_request e s user_session user_type current_user body =
     (case body of
        None \<Rightarrow> (Inr (500, error_response JNull (str_exn e JSONDecodeError)), s)
      | Some request_data \<Rightarrow>
          (case (case user_session of
                   None \<Rightarrow> create_session e s user_type current_user
                 | Some sid \<Rightarrow>
                     if sid = [] then create_session e s user_type current_user
                     else (Inr sid, s)) of
             (Inl ex, s1) \<Rightarrow>
               (case request_data of
                  JObj kvs \<Rightarrow>
                    (Inr (500, error_response (dict_get kvs ''id'') (str_exn e ex)), s1)
                | other \<Rightarrow> (Inl AttributeError, s1))
           | (Inr session_id, s1) \<Rightarrow>
               (case request_data of
                  JObj kvs \<Rightarrow>
                    (case route_request_any e s1 session_id
                            (dict_get kvs ''method'') (dict_get kvs ''params'') of
                       (Inr response, s2) \<Rightarrow> (Inr (200, response), s2)
                     | (Inl ex, s2) \<Rightarrow>
                         (Inr (500, error_response (dict_get kvs ''id'') (str_exn e ex)), s2))
                | other \<Rightarrow> (Inl AttributeError, s1))))"

section \<open>Notions used in the statements\<close>

text \<open>A JSON value is a dictionary.\<close>

fun is_object :: "json \<Rightarrow> bool" where
  "is_object (JObj kvs) = True"
| "is_object other = False"







text \<open>The methods that \<^verbatim>\<open>route_request\<close> sends to the primary server.\<close>

definition primary_method :: "string \<Rightarrow> bool" where
  "primary_method method =
     (if method \<in> {''tools/list'', ''resources/list'', ''prompts/list''} then False
      else if startswith method ''tools/call'' then False
      else True)"

text \<open>
  The close of \<^verbatim>\<open>stop_server\<close> raises for an entry: \<^verbatim>\<open>terminate\<close>, \<^verbatim>\<open>kill\<close> or
  \<^verbatim>\<open>wait\<close> for a subprocess, \<^verbatim>\<open>aclose\<close> for an HTTP client.
\<close>

fun close_raises :: "env \<Rightarrow> server_info \<Rightarrow> bool" where
  "close_raises e (StdioInfo server process t) = (terminate e process = CloseRaises)"
| "close_raises e (HttpInfo server client t) = (if aclose_ok e client then False else True)"

text \<open>A tool is an object whose \<^verbatim>\<open>"name"\<close> equals the name asked for.\<close>

fun named :: "json \<Rightarrow> json \<Rightarrow> bool" where
  "named tool_name (JObj kvs) = py_eq (dict_get kvs ''name'') tool_name"
| "named tool_name other = False"

text \<open>
  A tool listing names a tool: the response is a dictionary with a list under
  \<^verbatim>\<open>"result"\<close>, and an object with that name stands in the list before any item that is
  no object.
\<close>

fun advertised_in :: "json \<Rightarrow> json \<Rightarrow> bool" where
  "advertised_in (JObj kvs) tool_name =
     (case map_of kvs ''result'' of
        Some (JList tools) \<Rightarrow> list_ex (named tool_name) (takeWhile is_object tools)
      | other \<Rightarrow> False)"
| "advertised_in other tool_name = False"

text \<open>A server advertises a tool in a state: its tool listing returns and names it.\<close>

definition advertises :: "env \<Rightarrow> system \<Rightarrow> int \<Rightarrow> json \<Rightarrow> bool" where
  "advertises e s server_id tool_name =
     (case proxy_request e s server_id ''tools/list'' JNull of
        (Inl ex, s1) \<Rightarrow> False
      | (Inr tools_response, s1) \<Rightarrow> advertised_in tools_response tool_name)"

text \<open>
  The first server of a list that advertises a tool, each server asked for its listing
  in the state its predecessors left, together with the state after its listing; \<open>None\<close>
  when no server of the list advertises the tool.
\<close>

fun first_advertiser :: "env \<Rightarrow> system \<Rightarrow> json \<Rightarrow> int list \<Rightarrow> (int \<times> system) option" where
  "first_advertiser e s tool_name [] = None"
| "first_advertiser e s tool_name (server_id # rest) =
     (if advertises e s server_id tool_name
      then Some (server_id, snd (proxy_request e s server_id ''tools/list'' JNull))
      else first_advertiser e (snd (proxy_request e s server_id ''tools/list'' JNull))
             tool_name rest)"

text \<open>The names the specification gives to the routing errors.\<close>

definition NoSession :: exn where
  "NoSession = HTTPException 404 ''Session not found''"

definition NoProvidersAttached :: exn where
  "NoProvidersAttached = HTTPException 400 ''No servers connected to session''"


section \<open>A concrete world for running the model\<close>

text \<open>
  Three stdio subprocesses. Process 0 lists the tool \<open>echo\<close> and fails every tool call;
  process 1 lists \<open>echo\<close> and \<open>add\<close> and answers tool calls; process 2 never answers.
  Processes 0 and 1 answer any other method with an empty result under the identifier
  they were sent.
\<close>

definition demo_pipe :: "nat \<Rightarrow> json \<Rightarrow> string + json" where
  "demo_pipe process request_data =
     (case request_data of
        JObj kvs \<Rightarrow>
          (if process = 2 then Inl ''timeout''
           else if dict_get kvs ''method'' = JStr ''tools/list'' then
             Inr (JObj [(''jsonrpc'', JStr ''2.0''), (''id'', dict_get kvs ''id''),
                        (''result'', JList
                           (if process = 0 then [JObj [(''name'', JStr ''echo'')]]
                            else [JObj [(''name'', JStr ''echo'')],
                                  JObj [(''name'', JStr ''add'')]]))])
           else if dict_get kvs ''method'' = JStr ''tools/call'' then
             (if process = 0 then Inl ''timeout''
              else Inr (JObj [(''jsonrpc'', JStr ''2.0''), (''id'', dict_get kvs ''id''),
                              (''result'', JObj [(''content'', JStr ''from process 1'')])]))
           else Inr (JObj [(''jsonrpc'', JStr ''2.0''), (''id'', dict_get kvs ''id''),
                           (''result'', JObj [])]))
      | other \<Rightarrow> Inl ''bad request'')"

definition demo_env :: env where
  "demo_env =
     \<lparr>utcnow = 1000,
      uuid4 = (\<lambda>n. replicate (Suc n) (CHR ''u'')),
      spawn_ok = (\<lambda>server process. True),
      ping_reply = (\<lambda>process. Reply (JObj [(''jsonrpc'', JStr ''2.0''), (''id'', JInt 1),
                                             (''result'', JObj [])])),
      kill_ok = (\<lambda>process. True),
      terminate = (\<lambda>process. Exited),
      client_ok = (\<lambda>server. True),
      http_get = (\<lambda>client path. Some 200),
      aclose_ok = (\<lambda>client. True),
      pipe_send = demo_pipe,
      http_post = (\<lambda>client path request_data. Inl ''connection refused''),
      db_ok = (\<lambda>n. True),
      str_exn = (\<lambda>ex. ''error''),
      str_json = (\<lambda>v. ''value'')\<rparr>"

definition demo_server :: "int \<Rightarrow> MCPServer" where
  "demo_server i =
     \<lparr>id_server = i, name = ''demo'', command = ''run'', args = [],
      transport_type = STDIO, status = INACTIVE, last_health_check = None,
      health_check_interval = 60, auto_restart = True, max_restarts = 3,
      restart_count = 0\<rparr>"

text \<open>Nothing started, no session, rows for the servers 1, 2 and 3.\<close>

definition fresh_system :: system where
  "fresh_system =
     \<lparr>active_servers = Map.empty, server_processes = Map.empty, http_clients = Map.empty,
      sessions = Map.empty,
      db = [1 \<mapsto> demo_server 1, 2 \<mapsto> demo_server 2, 3 \<mapsto> demo_server 3],
      spawned = 0, ended = {}, opened = 0, closed = {}, issued = 0, db_ops = 0\<rparr>"

text \<open>
  The state after the servers 1, 2 and 3 were started in this order in \<open>demo_env\<close>: they
  own the processes 0, 1 and 2, and their rows are \<open>ACTIVE\<close>.
\<close>

definition started :: "int \<Rightarrow> MCPServer" where
  "started i = (demo_server i)\<lparr>status := ACTIVE, last_health_check := Some 1000\<rparr>"

definition running_system :: system where
  "running_system =
     \<lparr>active_servers = [1 \<mapsto> StdioInfo (demo_server 1) 0 1000,
                        2 \<mapsto> StdioInfo (demo_server 2) 1 1000,
                        3 \<mapsto> StdioInfo (demo_server 3) 2 1000],
      server_processes = [1 \<mapsto> 0, 2 \<mapsto> 1, 3 \<mapsto> 2],
      http_clients = Map.empty,
      sessions = [''s1'' \<mapsto>
                    \<lparr>client_type = ''api'', client_info = JNull,
                     connected_servers = [1, 3, 2], created_at = 0\<rparr>,
                  ''s0'' \<mapsto>
                    \<lparr>client_type = ''api'', client_info = JNull,
                     connected_servers = [], created_at = 0\<rparr>],
      db = [1 \<mapsto> started 1, 2 \<mapsto> started 2, 3 \<mapsto> started 3],
      spawned = 3, ended = {}, opened = 0, closed = {}, issued = 0, db_ops = 3\<rparr>"

definition demo_session :: "int list \<Rightarrow> session" where
  "demo_session ids =
     \<lparr>client_type = ''api'', client_info = JNull, connected_servers = ids, created_at = 0\<rparr>"


text \<open>
  The same world with a handshake that always meets \<open>reply\<close>, and the first start of
  server 1 in it.
\<close>

definition handshake_env :: "stdio_reply \<Rightarrow> env" where
  "handshake_env reply = demo_env\<lparr>ping_reply := (\<lambda>process. reply)\<rparr>"

definition failed_start :: "stdio_reply \<Rightarrow> bool \<times> system" where
  "failed_start reply = start_server (handshake_env reply) fresh_system (demo_server 1)"

text \<open>The same world with subprocesses on which \<^verbatim>\<open>terminate\<close> raises.\<close>

definition gone_env :: env where
  "gone_env = demo_env\<lparr>terminate := (\<lambda>process. CloseRaises)\<rparr>"

text \<open>The same world with a database on which every operation raises.\<close>

definition locked_env :: env where
  "locked_env = demo_env\<lparr>db_ok := (\<lambda>n. False)\<rparr>"

text \<open>The fresh system after one start of server 1: the server is active on process 0.\<close>

definition once_started :: system where
  "once_started = snd (start_server demo_env fresh_system (demo_server 1))"


section \<open>Health check\<close>

text \<open>
  C10. For a server identifier without an entry in \<^verbatim>\<open>active_servers\<close>, \<open>health_check\<close>
  returns \<open>False\<close> at once and changes nothing: no status, no timestamp, no registry, no
  counter.
\<close>

theorem health_check_unregistered:
  "active_servers s server_id = None \<Longrightarrow> health_check e s server_id = (Inr False, s)"
  by (simp add: health_check_def)

theorem health_check_unregistered_witness:
  "active_servers running_system 4 = None
   \<and> health_check demo_env running_system 4 = (Inr False, running_system)"
  using health_check_unregistered [of running_system 4 demo_env]
  by (simp add: running_system_def)

text \<open>A request changes nothing but the count of the identifiers drawn.\<close>

lemma proxy_request_frame:
  "snd (proxy_request e s server_id method params)
     = s\<lparr>issued := issued (snd (proxy_request e s server_id method params))\<rparr>"
  by (simp add: proxy_request_def Let_def split: option.splits server_info.splits sum.splits)

text \<open>
  C3, as the code has it. Take a registered server with a row. When the ping returns and
  the write of the status goes through, \<open>health_check\<close> returns \<open>True\<close> and the row is
  \<open>ACTIVE\<close> with a fresh timestamp. When the ping raises, or the write of \<open>ACTIVE\<close> raises,
  the handler writes \<open>ERROR\<close>: when that write goes through, \<open>health_check\<close> returns \<open>False\<close>
  and the row is \<open>ERROR\<close> with a fresh timestamp; when it raises, \<open>health_check\<close> raises and
  the row is as before. In every case nothing else changes: every other column of the
  row (\<open>restart_count\<close>, \<open>auto_restart\<close>, \<open>max_restarts\<close> among them) keeps its value, the
  other rows and the three registries are untouched, and no subprocess or client is
  created or closed. No restart is attempted and the restart counter is never
  incremented.
\<close>

theorem health_check_on_registered:
  assumes "active_servers s server_id = Some info" and "db s server_id = Some row"
  shows "fst (health_check e s server_id) =
           (if \<not> isl (fst (proxy_request e s server_id ''ping'' JNull)) \<and> db_ok e (db_ops s)
            then Inr True
            else if db_ok e (if isl (fst (proxy_request e s server_id ''ping'' JNull))
                              then db_ops s else Suc (db_ops s))
            then Inr False
            else Inl DatabaseError)
       \<and> db (snd (health_check e s server_id)) server_id =
           Some (case fst (health_check e s server_id) of
                   Inl ex \<Rightarrow> row
                 | Inr ok \<Rightarrow> row\<lparr>status := (if ok then ACTIVE else ERROR),
                                  last_health_check := Some (utcnow e)\<rparr>)
       \<and> (\<forall>i. i \<noteq> server_id \<longrightarrow> db (snd (health_check e s server_id)) i = db s i)
       \<and> active_servers (snd (health_check e s server_id)) = active_servers s
       \<and> server_processes (snd (health_check e s server_id)) = server_processes s
       \<and> http_clients (snd (health_check e s server_id)) = http_clients s
       \<and> spawned (snd (health_check e s server_id)) = spawned s
       \<and> opened (snd (health_check e s server_id)) = opened s
       \<and> ended (snd (health_check e s server_id)) = ended s
       \<and> closed (snd (health_check e s server_id)) = closed s"
proof (cases "proxy_request e s server_id ''ping'' JNull")
  case (Pair r s1)
  have frame: "s1 = s\<lparr>issued := issued s1\<rparr>"
    using proxy_request_frame [of e s server_id "''ping''" JNull] Pair by simp
  have fields: "db s1 = db s" "db_ops s1 = db_ops s" "active_servers s1 = active_servers s"
    "server_processes s1 = server_processes s" "http_clients s1 = http_clients s"
    "spawned s1 = spawned s" "opened s1 = opened s" "ended s1 = ended s"
    "closed s1 = closed s"
    by (subst frame, simp)+
  show ?thesis
    using assms Pair fields
    by (cases r)
       (simp_all add: health_check_def health_check_failed_def update_server_status_def
          Let_def)
qed

theorem health_check_on_registered_witness:
  "active_servers running_system 3 = Some (StdioInfo (demo_server 3) 2 1000)
   \<and> db running_system 3 = Some (started 3)
   \<and> fst (health_check demo_env running_system 3) = Inr False
   \<and> db (snd (health_check demo_env running_system 3)) 3 = Some ((started 3)\<lparr>status := ERROR\<rparr>)
   \<and> restart_count (started 3) = 0
   \<and> active_servers running_system 1 = Some (StdioInfo (demo_server 1) 0 1000)
   \<and> db running_system 1 = Some (started 1)
   \<and> fst (health_check demo_env running_system 1) = Inr True
   \<and> db (snd (health_check demo_env running_system 1)) 1 = Some (started 1)
   \<and> fst (health_check locked_env running_system 1) = Inl DatabaseError
   \<and> db (snd (health_check locked_env running_system 1)) 1 = Some (started 1)"
proof -
  have regs: "active_servers running_system 3 = Some (StdioInfo (demo_server 3) 2 1000)"
    "db running_system 3 = Some (started 3)"
    "active_servers running_system 1 = Some (StdioInfo (demo_server 1) 0 1000)"
    "db running_system 1 = Some (started 1)"
    "db_ops running_system = 3"
    by (simp_all add: running_system_def)
  have pings: "isl (fst (proxy_request demo_env running_system 3 ''ping'' JNull))"
    "\<not> isl (fst (proxy_request demo_env running_system 1 ''ping'' JNull))"
    "\<not> isl (fst (proxy_request locked_env running_system 1 ''ping'' JNull))"
    by (simp_all add: proxy_request_def proxy_stdio_request_def running_system_def
          locked_env_def demo_env_def demo_pipe_def dict_get_def dict_get_default_def Let_def)
  have world: "db_ok demo_env 3" "utcnow demo_env = 1000"
    "\<not> db_ok locked_env 3" "\<not> db_ok locked_env 4"
    by (simp_all add: demo_env_def locked_env_def)
  have rows: "(started 3)\<lparr>status := ERROR, last_health_check := Some 1000\<rparr>
                = (started 3)\<lparr>status := ERROR\<rparr>"
    "(started 1)\<lparr>status := ACTIVE, last_health_check := Some 1000\<rparr> = started 1"
    "restart_count (started 3) = 0"
    by (simp_all add: started_def demo_server_def)
  show ?thesis
    using health_check_on_registered
            [of running_system 3 "StdioInfo (demo_server 3) 2 1000" "started 3" demo_env]
          health_check_on_registered
            [of running_system 1 "StdioInfo (demo_server 1) 0 1000" "started 1" demo_env]
          health_check_on_registered
            [of running_system 1 "StdioInfo (demo_server 1) 0 1000" "started 1" locked_env]
          regs pings world rows
    by simp
qed

text \<open>
  C3 as stated fails. Server 3 has \<open>auto_restart\<close> set and has used none of its three
  restarts; its process never answers, so the health check fails. The restart counter
  is not incremented, no subprocess is spawned and the registries stay as they were:
  no restart is scheduled.
\<close>

theorem health_check_restart_counterexample:
  "auto_restart (started 3) \<and> restart_count (started 3) < max_restarts (started 3)
   \<and> db running_system 3 = Some (started 3)
   \<and> fst (health_check demo_env running_system 3) = Inr False
   \<and> map_option restart_count (db (snd (health_check demo_env running_system 3)) 3)
       \<noteq> Some (restart_count (started 3) + 1)
   \<and> spawned (snd (health_check demo_env running_system 3)) = spawned running_system
   \<and> active_servers (snd (health_check demo_env running_system 3))
       = active_servers running_system"
  by (simp add: running_system_def demo_env_def demo_pipe_def started_def demo_server_def
        health_check_def health_check_failed_def update_server_status_def
        proxy_request_def proxy_stdio_request_def dict_get_def dict_get_default_def Let_def)

section \<open>Start and stop\<close>

text \<open>The demo state is what starting the three servers in a fresh system gives.\<close>

lemma running_system_reached:
  "snd (start_server demo_env
         (snd (start_server demo_env
                (snd (start_server demo_env fresh_system (demo_server 1)))
                (demo_server 2)))
         (demo_server 3))
     = running_system\<lparr>sessions := Map.empty\<rparr>"
  apply (simp add: start_server_def start_stdio_server_def demo_env_def demo_server_def
           fresh_system_def test_stdio_connection_def update_server_status_def
           running_system_def started_def Let_def)
  apply (auto simp: fun_eq_iff)
  done

text \<open>
  A stdio start whose subprocess spawns and whose handshake fails returns \<open>False\<close>,
  writes nothing to the database, leaves \<^verbatim>\<open>active_servers\<close> alone and keeps the new
  process in \<^verbatim>\<open>server_processes\<close>.
\<close>

lemma start_stdio_handshake_failure:
  assumes "transport_type server = STDIO" and "spawn_ok e server (spawned s)"
      and "\<not> test_stdio_connection e (spawned s)"
  shows "fst (start_server e s server) = False
       \<and> db (snd (start_server e s server)) = db s
       \<and> db_ops (snd (start_server e s server)) = db_ops s
       \<and> active_servers (snd (start_server e s server)) = active_servers s
       \<and> server_processes (snd (start_server e s server)) (id_server server)
           = Some (spawned s)"
  using assms
  by (simp add: start_server_def start_stdio_server_def Let_def)

text \<open>The handshake fails without an answer, on a line that is no JSON, on a write that
  raises, and on a dictionary without the key \<^verbatim>\<open>"jsonrpc"\<close>.\<close>

lemma test_stdio_connection_fails:
  "ping_reply e process \<in> {NoReply, BadLine, PipeError} \<Longrightarrow> \<not> test_stdio_connection e process"
  "ping_reply e process = Reply (JObj kvs) \<Longrightarrow>
     test_stdio_connection e process = (map_of kvs ''jsonrpc'' \<noteq> None)"
  by (auto simp: test_stdio_connection_def)

text \<open>
  C4, the code at the failing inputs. Server 1 is started in a fresh system and the
  handshake meets no answer, a line that is no JSON, or an envelope without
  \<^verbatim>\<open>"jsonrpc"\<close>. Each time the start returns failure, but the status of the row stays
  \<open>INACTIVE\<close> instead of becoming \<open>ERROR\<close>, and \<^verbatim>\<open>server_processes\<close>, empty for the server
  before, keeps the killed process 0.
\<close>

theorem start_stdio_failure_keeps_process_entry:
  "map_option status (db fresh_system 1) = Some INACTIVE
   \<and> server_processes fresh_system 1 = None
   \<and> \<not> test_stdio_connection (handshake_env NoReply) 0
   \<and> \<not> fst (failed_start NoReply)
   \<and> map_option status (db (snd (failed_start NoReply)) 1) = Some INACTIVE
   \<and> server_processes (snd (failed_start NoReply)) 1 = Some 0
   \<and> 0 \<in> ended (snd (failed_start NoReply))
   \<and> \<not> test_stdio_connection (handshake_env BadLine) 0
   \<and> \<not> fst (failed_start BadLine)
   \<and> map_option status (db (snd (failed_start BadLine)) 1) = Some INACTIVE
   \<and> server_processes (snd (failed_start BadLine)) 1 = Some 0
   \<and> \<not> test_stdio_connection (handshake_env (Reply (JObj [(''result'', JObj [])]))) 0
   \<and> \<not> fst (failed_start (Reply (JObj [(''result'', JObj [])])))
   \<and> map_option status (db (snd (failed_start (Reply (JObj [(''result'', JObj [])])))) 1)
       = Some INACTIVE
   \<and> server_processes (snd (failed_start (Reply (JObj [(''result'', JObj [])])))) 1 = Some 0"
  by (simp add: failed_start_def handshake_env_def start_server_def start_stdio_server_def
        test_stdio_connection_def fresh_system_def demo_env_def demo_server_def Let_def)

text \<open>
  Whatever the registries hold, a stdio start whose spawn succeeds creates one more
  subprocess and terminates none that existed before.
\<close>

lemma start_stdio_always_spawns:
  assumes "transport_type server = STDIO" and "spawn_ok e server (spawned s)"
  shows "spawned (snd (start_server e s server)) = Suc (spawned s)
       \<and> ended (snd (start_server e s server)) \<subseteq> insert (spawned s) (ended s)"
  using assms
  by (auto simp: start_server_def start_stdio_server_def update_server_status_def Let_def
           split: option.splits)

text \<open>The first start of server 1 in a fresh system makes it active on process 0.\<close>

lemma once_started_state:
  "start_server demo_env fresh_system (demo_server 1) = (True, once_started)"
  "active_servers once_started 1 = Some (StdioInfo (demo_server 1) 0 1000)"
  "server_processes once_started 1 = Some 0"
  "spawned once_started = 1"
  "ended once_started = {}"
  by (simp_all add: once_started_def start_server_def start_stdio_server_def
        test_stdio_connection_def update_server_status_def fresh_system_def demo_env_def
        demo_server_def Let_def)

text \<open>
  C5, the code at the failing input. Server 1 is started twice in a row in a fresh
  system, as two requests to the start endpoint do. After the first start it is active
  on process 0. The second start succeeds too, but it is no no-op: a second subprocess
  is spawned, both registries now name process 1 for the server, and process 0 has not
  been terminated, so two live subprocesses belong to the one server.
\<close>

theorem start_active_server_spawns_again:
  "start_server demo_env fresh_system (demo_server 1) = (True, once_started)
   \<and> active_servers once_started 1 = Some (StdioInfo (demo_server 1) 0 1000)
   \<and> server_processes once_started 1 = Some 0
   \<and> spawned once_started = 1
   \<and> fst (start_server demo_env once_started (demo_server 1))
   \<and> snd (start_server demo_env once_started (demo_server 1)) \<noteq> once_started
   \<and> spawned (snd (start_server demo_env once_started (demo_server 1))) = 2
   \<and> active_servers (snd (start_server demo_env once_started (demo_server 1))) 1
       = Some (StdioInfo (demo_server 1) 1 1000)
   \<and> server_processes (snd (start_server demo_env once_started (demo_server 1))) 1 = Some 1
   \<and> ended (snd (start_server demo_env once_started (demo_server 1))) = {}"
proof -
  have again: "start_server demo_env once_started (demo_server 1) =
      (True, snd (start_server demo_env once_started (demo_server 1)))"
    "spawned (snd (start_server demo_env once_started (demo_server 1))) = 2"
    "active_servers (snd (start_server demo_env once_started (demo_server 1))) 1
       = Some (StdioInfo (demo_server 1) 1 1000)"
    "server_processes (snd (start_server demo_env once_started (demo_server 1))) 1 = Some 1"
    "ended (snd (start_server demo_env once_started (demo_server 1))) = {}"
    using once_started_state(4,5)
    by (simp_all add: start_server_def start_stdio_server_def test_stdio_connection_def
          update_server_status_def demo_env_def demo_server_def Let_def
          split: option.splits)
  have "spawned (snd (start_server demo_env once_started (demo_server 1)))
          \<noteq> spawned once_started"
    using again(2) once_started_state(4) by simp
  then have changed: "snd (start_server demo_env once_started (demo_server 1)) \<noteq> once_started"
    by auto
  have ok: "fst (start_server demo_env once_started (demo_server 1))"
    by (subst again(1)) simp
  show ?thesis
    using once_started_state again(2-5) changed ok by simp
qed

text \<open>The clean-up removes the server from the registries and then writes the status.\<close>

lemma clean_up_outcome:
  "fst (clean_up e s server_id) = db_ok e (db_ops s)
   \<and> active_servers (snd (clean_up e s server_id)) = (active_servers s)(server_id := None)
   \<and> server_processes (snd (clean_up e s server_id)) = (server_processes s)(server_id := None)
   \<and> http_clients (snd (clean_up e s server_id)) = (http_clients s)(server_id := None)
   \<and> db (snd (clean_up e s server_id)) =
       (if db_ok e (db_ops s)
        then (case db s server_id of
                None \<Rightarrow> db s
              | Some row \<Rightarrow> (db s)(server_id \<mapsto>
                  row\<lparr>status := INACTIVE, last_health_check := Some (utcnow e)\<rparr>))
        else db s)"
  by (simp add: clean_up_def update_server_status_def Let_def split: option.splits)

text \<open>
  C6, as the code has it. \<open>stop_server\<close> is total: it returns a boolean and never raises.
  Without an entry it returns \<open>True\<close> and changes nothing, the status included. With an
  entry whose close raises, it returns \<open>False\<close> and the whole state is as before. With
  an entry whose close completes, the server is removed from all three registries and
  every other entry stays; then the status is written: when the write goes through, the
  row (if there is one) becomes \<open>INACTIVE\<close> with a fresh timestamp and the stop returns
  \<open>True\<close>; when the write raises, the table is as before and the stop returns \<open>False\<close>. In
  both cases stopping once more right away returns \<open>True\<close> and changes nothing.
\<close>

theorem stop_server_outcomes:
  "(active_servers s server_id = None \<longrightarrow> stop_server e s server_id = (True, s))
   \<and> (\<forall>info. active_servers s server_id = Some info \<longrightarrow>
         (close_raises e info \<longrightarrow> stop_server e s server_id = (False, s))
       \<and> (\<not> close_raises e info \<longrightarrow>
            fst (stop_server e s server_id) = db_ok e (db_ops s)
          \<and> active_servers (snd (stop_server e s server_id))
              = (active_servers s)(server_id := None)
          \<and> server_processes (snd (stop_server e s server_id))
              = (server_processes s)(server_id := None)
          \<and> http_clients (snd (stop_server e s server_id))
              = (http_clients s)(server_id := None)
          \<and> db (snd (stop_server e s server_id)) =
              (if db_ok e (db_ops s)
               then (case db s server_id of
                       None \<Rightarrow> db s
                     | Some row \<Rightarrow> (db s)(server_id \<mapsto>
                         row\<lparr>status := INACTIVE, last_health_check := Some (utcnow e)\<rparr>))
               else db s)
          \<and> stop_server e (snd (stop_server e s server_id)) server_id
              = (True, snd (stop_server e s server_id))))"
proof (intro conjI impI allI)
  assume "active_servers s server_id = None"
  then show "stop_server e s server_id = (True, s)"
    by (simp add: stop_server_def)
next
  fix info
  assume "active_servers s server_id = Some info" and "close_raises e info"
  then show "stop_server e s server_id = (False, s)"
    by (cases info) (simp_all add: stop_server_def split: if_splits)
next
  fix info
  assume reg: "active_servers s server_id = Some info" and ok: "\<not> close_raises e info"
  obtain s0 where run: "stop_server e s server_id = clean_up e s0 server_id"
    and same: "active_servers s0 = active_servers s" "server_processes s0 = server_processes s"
      "http_clients s0 = http_clients s" "db s0 = db s" "db_ops s0 = db_ops s"
  proof (cases info)
    case (StdioInfo server process t)
    show ?thesis
      using reg ok StdioInfo
      by (intro that [of "s\<lparr>ended := insert process (ended s)\<rparr>"])
         (simp_all add: stop_server_def split: close_outcome.splits)
  next
    case (HttpInfo server client t)
    show ?thesis
      using reg ok HttpInfo
      by (intro that [of "s\<lparr>closed := insert client (closed s)\<rparr>"])
         (simp_all add: stop_server_def split: if_splits)
  qed
  note out = clean_up_outcome [of e s0 server_id]
  show "fst (stop_server e s server_id) = db_ok e (db_ops s)"
    and "active_servers (snd (stop_server e s server_id))
          = (active_servers s)(server_id := None)"
    and "server_processes (snd (stop_server e s server_id))
          = (server_processes s)(server_id := None)"
    and "http_clients (snd (stop_server e s server_id)) = (http_clients s)(server_id := None)"
    and "db (snd (stop_server e s server_id)) =
              (if db_ok e (db_ops s)
               then (case db s server_id of
                       None \<Rightarrow> db s
                     | Some row \<Rightarrow> (db s)(server_id \<mapsto>
                         row\<lparr>status := INACTIVE, last_health_check := Some (utcnow e)\<rparr>))
               else db s)"
    using out unfolding run same by simp_all
  have "active_servers (snd (stop_server e s server_id)) server_id = None"
    using out unfolding run same by simp
  then show "stop_server e (snd (stop_server e s server_id)) server_id
              = (True, snd (stop_server e s server_id))"
    by (simp add: stop_server_def)
qed

theorem stop_server_outcomes_witness:
  "active_servers running_system 4 = None
   \<and> stop_server demo_env running_system 4 = (True, running_system)
   \<and> active_servers running_system 1 = Some (StdioInfo (demo_server 1) 0 1000)
   \<and> \<not> close_raises demo_env (StdioInfo (demo_server 1) 0 1000)
   \<and> fst (stop_server demo_env running_system 1)
   \<and> active_servers (snd (stop_server demo_env running_system 1)) 1 = None
   \<and> active_servers (snd (stop_server demo_env running_system 1)) 2
       = active_servers running_system 2
   \<and> db (snd (stop_server demo_env running_system 1)) 1
       = Some ((started 1)\<lparr>status := INACTIVE\<rparr>)
   \<and> stop_server demo_env (snd (stop_server demo_env running_system 1)) 1
       = (True, snd (stop_server demo_env running_system 1))
   \<and> close_raises gone_env (StdioInfo (demo_server 1) 0 1000)
   \<and> stop_server gone_env running_system 1 = (False, running_system)
   \<and> \<not> close_raises locked_env (StdioInfo (demo_server 1) 0 1000)
   \<and> \<not> fst (stop_server locked_env running_system 1)
   \<and> active_servers (snd (stop_server locked_env running_system 1)) 1 = None
   \<and> db (snd (stop_server locked_env running_system 1)) 1 = Some (started 1)"
proof -
  have regs: "active_servers running_system 4 = None"
    "active_servers running_system 1 = Some (StdioInfo (demo_server 1) 0 1000)"
    "db running_system 1 = Some (started 1)" "db_ops running_system = 3"
    by (simp_all add: running_system_def)
  have world: "\<not> close_raises demo_env (StdioInfo (demo_server 1) 0 1000)"
    "close_raises gone_env (StdioInfo (demo_server 1) 0 1000)"
    "\<not> close_raises locked_env (StdioInfo (demo_server 1) 0 1000)"
    "db_ok demo_env 3" "\<not> db_ok locked_env 3" "utcnow demo_env = 1000"
    by (simp_all add: demo_env_def gone_env_def locked_env_def)
  have row: "(started 1)\<lparr>status := INACTIVE, last_health_check := Some 1000\<rparr>
               = (started 1)\<lparr>status := INACTIVE\<rparr>"
    by (simp add: started_def demo_server_def)
  show ?thesis
    using stop_server_outcomes [of running_system 4 demo_env]
          stop_server_outcomes [of running_system 1 demo_env]
          stop_server_outcomes [of running_system 1 gone_env]
          stop_server_outcomes [of running_system 1 locked_env]
          regs world row
    by simp
qed

text \<open>
  C6 as stated fails. Server 1 is active and its subprocess is gone, so \<^verbatim>\<open>terminate\<close>
  raises. The stop returns failure, the registry entry is still there, the status is
  still \<open>ACTIVE\<close>, and a second stop right after it fails again.
\<close>

theorem stop_server_close_failure_counterexample:
  "active_servers running_system 1 = Some (StdioInfo (demo_server 1) 0 1000)
   \<and> \<not> fst (stop_server gone_env running_system 1)
   \<and> active_servers (snd (stop_server gone_env running_system 1)) 1 \<noteq> None
   \<and> map_option status (db (snd (stop_server gone_env running_system 1)) 1) = Some ACTIVE
   \<and> \<not> fst (stop_server gone_env (snd (stop_server gone_env running_system 1)) 1)"
  by (simp add: stop_server_def gone_env_def running_system_def demo_env_def started_def
        demo_server_def)

section \<open>Routing\<close>

subsection \<open>Aggregation\<close>












subsection \<open>Session and primary server\<close>

text \<open>
  C9. Routing in an unknown session fails with \<open>NoSession\<close>. In a known session a method
  of the primary-fallback strategy fails with \<open>NoProvidersAttached\<close> when no server is
  attached, and is otherwise exactly the request to the server attached first. Both
  failures are exceptions of the gateway's own, raised before any server is contacted.
\<close>

theorem route_request_preconditions:
  "(sessions s session_id = None \<longrightarrow>
        route_request e s session_id method params = (Inl NoSession, s))
   \<and> (\<forall>sess. sessions s session_id = Some sess \<and> primary_method method \<longrightarrow>
          (connected_servers sess = [] \<longrightarrow>
             route_request e s session_id method params = (Inl NoProvidersAttached, s))
        \<and> (\<forall>primary rest. connected_servers sess = primary # rest \<longrightarrow>
             route_request e s session_id method params
               = proxy_request e s primary method params))"
  by (auto simp: route_request_def route_to_primary_server_def primary_method_def
        NoSession_def NoProvidersAttached_def split: if_splits)

theorem route_request_preconditions_witness:
  "sessions running_system ''nobody'' = None
   \<and> route_request demo_env running_system ''nobody'' ''ping'' JNull
       = (Inl (HTTPException 404 ''Session not found''), running_system)
   \<and> sessions running_system ''s0'' = Some (demo_session [])
   \<and> primary_method ''ping''
   \<and> route_request demo_env running_system ''s0'' ''ping'' JNull
       = (Inl (HTTPException 400 ''No servers connected to session''), running_system)
   \<and> sessions running_system ''s1'' = Some (demo_session [1, 3, 2])
   \<and> route_request demo_env running_system ''s1'' ''ping'' JNull
       = proxy_request demo_env running_system 1 ''ping'' JNull
   \<and> fst (route_request demo_env running_system ''s1'' ''ping'' JNull)
       = Inr (JObj [(''jsonrpc'', JStr ''2.0''), (''id'', JStr ''u''), (''result'', JObj [])])"
proof -
  have sess: "sessions running_system ''nobody'' = None"
    "sessions running_system ''s0'' = Some (demo_session [])"
    "sessions running_system ''s1'' = Some (demo_session [1, 3, 2])"
    "connected_servers (demo_session []) = []"
    "connected_servers (demo_session [1, 3, 2]) = [1, 3, 2]"
    by (simp_all add: running_system_def demo_session_def)
  have meth: "primary_method ''ping''"
    by (simp add: primary_method_def)
  have proxy: "fst (proxy_request demo_env running_system 1 ''ping'' JNull)
       = Inr (JObj [(''jsonrpc'', JStr ''2.0''), (''id'', JStr ''u''), (''result'', JObj [])])"
    by (simp add: proxy_request_def proxy_stdio_request_def running_system_def demo_env_def
          demo_pipe_def dict_get_def dict_get_default_def Let_def)
  show ?thesis
    using route_request_preconditions [of running_system "''nobody''" demo_env "''ping''" JNull]
          route_request_preconditions [of running_system "''s0''" demo_env "''ping''" JNull]
          route_request_preconditions [of running_system "''s1''" demo_env "''ping''" JNull]
          sess meth proxy
    by (simp add: NoSession_def NoProvidersAttached_def)
qed

text \<open>
  At the endpoint an exception of the routing is no crash: for a request that is a
  dictionary, in a session the client names, it becomes a JSON-RPC error response with
  status 500 under the identifier of the request.
\<close>

lemma handle_mcp_request_reports_errors:
  assumes "sid \<noteq> []"
      and "route_request_any e s sid (dict_get kvs ''method'') (dict_get kvs ''params'')
             = (Inl ex, s')"
  shows "handle_mcp_request e s (Some sid) user_type current_user (Some (JObj kvs))
           = (Inr (500, error_response (dict_get kvs ''id'') (str_exn e ex)), s')"
  using assms by (simp add: handle_mcp_request_def)

subsection \<open>Tool calls\<close>








text \<open>The first advertiser is attached, and it advertises the tool where it is asked.\<close>

lemma first_advertiser_attached:
  "first_advertiser e s tool_name ids = Some (server_id, s1) \<Longrightarrow> server_id \<in> set ids"
  by (induction ids arbitrary: s) (auto split: if_splits)





subsection \<open>The identifier of the request\<close>

text \<open>
  C7, the code at the failing inputs. A client in session \<open>s1\<close> sends requests with the
  identifier 7. The response to \<^verbatim>\<open>tools/list\<close> carries the identifier \<^verbatim>\<open>null\<close>, read from
  the absent parameters; the response to \<^verbatim>\<open>ping\<close> is the response of server 1 as it
  came, under the identifier the gateway drew for its own request. Only the error
  response, here for a session without servers, carries the 7.
\<close>

theorem handle_mcp_request_drops_identifier:
  "fst (handle_mcp_request demo_env running_system (Some ''s1'') ''api'' JNull
          (Some (JObj [(''jsonrpc'', JStr ''2.0''), (''id'', JInt 7),
                       (''method'', JStr ''tools/list'')])))
     = Inr (200, JObj [(''jsonrpc'', JStr ''2.0''), (''id'', JNull),
                  (''result'', JList
                     [JObj [(''name'', JStr ''echo''), (''_server_id'', JInt 1)],
                      JObj [(''name'', JStr ''echo''), (''_server_id'', JInt 2)],
                      JObj [(''name'', JStr ''add''), (''_server_id'', JInt 2)]])])
   \<and> fst (handle_mcp_request demo_env running_system (Some ''s1'') ''api'' JNull
          (Some (JObj [(''jsonrpc'', JStr ''2.0''), (''id'', JInt 7),
                       (''method'', JStr ''ping'')])))
     = Inr (200, JObj [(''jsonrpc'', JStr ''2.0''), (''id'', JStr ''u''), (''result'', JObj [])])
   \<and> fst (handle_mcp_request demo_env running_system (Some ''s0'') ''api'' JNull
          (Some (JObj [(''jsonrpc'', JStr ''2.0''), (''id'', JInt 7),
                       (''method'', JStr ''ping'')])))
     = Inr (500, JObj [(''jsonrpc'', JStr ''2.0''), (''id'', JInt 7),
                       (''error'', JObj [(''code'', JInt (- 32000)),
                                         (''message'', JStr ''error'')])])"
  by (simp add: handle_mcp_request_def route_request_any_def route_request_def
        aggregate_from_servers_def attempt_def collect_def get_if_truthy_def
        route_to_primary_server_def error_response_def
        proxy_request_def proxy_stdio_request_def
        running_system_def demo_env_def demo_pipe_def
        dict_get_def dict_get_default_def Let_def)

end
